theory Spec2Isabelle
  imports Main "HOL-Library.Sublist"
begin

section \<open>The DOM analyzer: data model\<close>

text \<open>
  A shallow embedding of \<^verbatim>\<open>dom_analyzer.js\<close>. JavaScript values that the analyzer only
  stores are kept as an opaque value type; functions and objects are references.
\<close>

datatype jsval = Undefined | Null_val | Bool bool | Num int | Str string | Fun nat | Obj nat

datatype error = TypeError | SyntaxError

text \<open>An attribute node of an element: \<^verbatim>\<open>attributes[i].nodeName\<close> and \<^verbatim>\<open>.nodeValue\<close>.\<close>

record attr =
  nodeName :: string
  nodeValue :: string

text \<open>
  An element carries the properties the analyzer reads: its tag name (as the DOM reports
  it, upper case in HTML documents), its attributes in order, its rendered size and its
  parent. A \<open>node\<close> is what a variable holding a node may refer to: nothing
  (\<^verbatim>\<open>null\<close>), the \<^verbatim>\<open>document\<close>, or an element. A \<open>target\<close> is an object on which
  a listener can be registered: the global \<^verbatim>\<open>window\<close> or a node.
\<close>

datatype element =
  Element (tagName: string) (attributes: "attr list") (offsetWidth: int) (offsetHeight: int)
    (parentNode: node)
and node = Null | Document | Elem element

datatype target = Window | Node node

text \<open>\<^verbatim>\<open>element.nodeType\<close> of an element is the constant \<^verbatim>\<open>Node.ELEMENT_NODE\<close>.\<close>

definition nodeType :: "element \<Rightarrow> nat" where
  "nodeType e = 1"

text \<open>
  The object \<^verbatim>\<open>edata\<close> built by \<^verbatim>\<open>extractEventsFromAttributes\<close>; the fields are in the
  order of the object literal.
\<close>

record edata =
  tag_name :: string
  node_type :: nat
  selector :: string
  event_type :: string
  handler :: string

section \<open>The validity matrix\<close>

definition universally_valid_events :: "string list" where
  "universally_valid_events =
     [''click'', ''dblclick'', ''mousedown'', ''mousemove'', ''mouseout'', ''mouseover'',
      ''mouseup'']"

definition elements_allowed_to_inherit_events_from_ancestors :: "string list" where
  "elements_allowed_to_inherit_events_from_ancestors =
     [''a'', ''div'', ''input'', ''textarea'', ''select'', ''form'', ''li'', ''span'',
      ''button'']"

text \<open>
  The object literal \<^verbatim>\<open>valid_events_per_element\<close>, as an association list; \<open>map_of\<close> on it
  is \<^verbatim>\<open>hasOwnProperty\<close> followed by the property read.
\<close>

definition valid_events_per_element :: "(string \<times> string list) list" where
  "valid_events_per_element =
     [(''body'', [''load'']),
      (''button'', [''focus'', ''blur'']),
      (''form'', [''submit'', ''reset'']),
      (''input'', [''select'', ''change'', ''focus'', ''blur'', ''keydown'', ''keypress'',
                   ''keyup'', ''input'']),
      (''label'', [''focus'', ''blur'']),
      (''textarea'', [''select'', ''change'', ''focus'', ''blur'', ''keydown'', ''keypress'',
                      ''keyup'', ''input'']),
      (''select'', [''change'', ''focus'', ''blur''])]"

definition eventIsValidForTagName :: "string \<Rightarrow> string \<Rightarrow> bool" where
  "eventIsValidForTagName tag attr_name =
     (if attr_name \<in> set universally_valid_events then True
      else case map_of valid_events_per_element tag of
             None \<Rightarrow> False
           | Some evs \<Rightarrow> attr_name \<in> set evs)"

section \<open>Event extraction\<close>

text \<open>
  \<^verbatim>\<open>String.prototype.toLowerCase\<close>. A character of the model is a code unit below U+0100;
  of these, lower-casing changes the letters A to Z and the capital letters U+00C0 to
  U+00DE other than the multiplication sign U+00D7, each of which moves up by 32.
\<close>

definition upper_case_letters :: string where
  "upper_case_letters =
     ''ABCDEFGHIJKLMNOPQRSTUVWXYZ'' @
     [CHR 0xC0, CHR 0xC1, CHR 0xC2, CHR 0xC3, CHR 0xC4, CHR 0xC5, CHR 0xC6, CHR 0xC7,
      CHR 0xC8, CHR 0xC9, CHR 0xCA, CHR 0xCB, CHR 0xCC, CHR 0xCD, CHR 0xCE, CHR 0xCF,
      CHR 0xD0, CHR 0xD1, CHR 0xD2, CHR 0xD3, CHR 0xD4, CHR 0xD5, CHR 0xD6,
      CHR 0xD8, CHR 0xD9, CHR 0xDA, CHR 0xDB, CHR 0xDC, CHR 0xDD, CHR 0xDE]"

definition lower_case_letters :: string where
  "lower_case_letters =
     ''abcdefghijklmnopqrstuvwxyz'' @
     [CHR 0xE0, CHR 0xE1, CHR 0xE2, CHR 0xE3, CHR 0xE4, CHR 0xE5, CHR 0xE6, CHR 0xE7,
      CHR 0xE8, CHR 0xE9, CHR 0xEA, CHR 0xEB, CHR 0xEC, CHR 0xED, CHR 0xEE, CHR 0xEF,
      CHR 0xF0, CHR 0xF1, CHR 0xF2, CHR 0xF3, CHR 0xF4, CHR 0xF5, CHR 0xF6,
      CHR 0xF8, CHR 0xF9, CHR 0xFA, CHR 0xFB, CHR 0xFC, CHR 0xFD, CHR 0xFE]"

definition lower_char :: "char \<Rightarrow> char" where
  "lower_char c =
     (case map_of (zip upper_case_letters lower_case_letters) c of
        None \<Rightarrow> c
      | Some l \<Rightarrow> l)"

definition toLowerCase :: "string \<Rightarrow> string" where
  "toLowerCase s = map lower_char s"

text \<open>
  The selector generator is an external collaborator: \<open>getSelector\<close> is a parameter of
  every function that calls \<^verbatim>\<open>_DOMAnalyzer.selector_generator.getSelector\<close>.

  The loop of \<^verbatim>\<open>extractEventsFromAttributes\<close> over \<^verbatim>\<open>attributes\<close>, with \<^verbatim>\<open>events\<close> as the
  accumulator; \<^verbatim>\<open>attr_name.substr(2)\<close> is \<open>drop 2\<close>.
\<close>

fun attributes_loop ::
  "string \<Rightarrow> element \<Rightarrow> string \<Rightarrow> attr list \<Rightarrow> edata list \<Rightarrow> edata list" where
  "attributes_loop tag element sel [] events = events"
| "attributes_loop tag element sel (a # rest) events =
     (let attr_name = drop 2 (nodeName a) in
      if \<not> eventIsValidForTagName tag attr_name
      then attributes_loop tag element sel rest events
      else attributes_loop tag element sel rest
             (events @ [\<lparr>tag_name = tag, node_type = nodeType element, selector = sel,
                         event_type = attr_name, handler = nodeValue a\<rparr>]))"

definition extractEventsFromAttributes ::
  "(target \<Rightarrow> string) \<Rightarrow> string \<Rightarrow> element \<Rightarrow> edata list" where
  "extractEventsFromAttributes getSelector tag element =
     attributes_loop tag element (getSelector (Node (Elem element))) (attributes element) []"

text \<open>
  \<^verbatim>\<open>getAncestors(elem, selector)\<close>: the loop starts at \<^verbatim>\<open>elem\<close> itself and follows
  \<^verbatim>\<open>parentNode\<close> until it reaches \<^verbatim>\<open>null\<close> or the document. \<^verbatim>\<open>elem.matches\<close> is the
  platform's selector test, a parameter (the polyfill that the function installs where the
  platform has none is not modelled); a selector that is \<^verbatim>\<open>null\<close> or empty is falsy.
\<close>

fun getAncestors_loop ::
  "(element \<Rightarrow> string \<Rightarrow> bool) \<Rightarrow> string option \<Rightarrow> node \<Rightarrow> element list \<Rightarrow> element list"
  where
  "getAncestors_loop matches sel Null parents = parents"
| "getAncestors_loop matches sel Document parents = parents"
| "getAncestors_loop matches sel (Elem (Element t a w h p)) parents =
     getAncestors_loop matches sel p
       (case sel of
          None \<Rightarrow> parents @ [Element t a w h p]
        | Some s \<Rightarrow>
            if s = [] then parents @ [Element t a w h p]
            else if matches (Element t a w h p) s then parents @ [Element t a w h p]
            else parents)"

definition getAncestors ::
  "(element \<Rightarrow> string \<Rightarrow> bool) \<Rightarrow> node \<Rightarrow> string option \<Rightarrow> element list" where
  "getAncestors matches elem sel = getAncestors_loop matches sel elem []"

text \<open>
  The two loops of \<^verbatim>\<open>extractInheritedEvents\<close>: the inner one re-scopes the events of one
  ancestor to \<^verbatim>\<open>element\<close>, the outer one runs over \<^verbatim>\<open>ancestors\<close>.
\<close>

fun rescope_loop ::
  "(target \<Rightarrow> string) \<Rightarrow> string \<Rightarrow> element \<Rightarrow> edata list \<Rightarrow> edata list \<Rightarrow> edata list"
  where
  "rescope_loop getSelector tag element [] events = events"
| "rescope_loop getSelector tag element (ancestor_event # rest) events =
     rescope_loop getSelector tag element rest
       (events @ [ancestor_event\<lparr>tag_name := tag,
                                  selector := getSelector (Node (Elem element)),
                                  node_type := nodeType element\<rparr>])"

fun ancestors_loop ::
  "(target \<Rightarrow> string) \<Rightarrow> string \<Rightarrow> element \<Rightarrow> element list \<Rightarrow> edata list \<Rightarrow> edata list"
  where
  "ancestors_loop getSelector tag element [] events = events"
| "ancestors_loop getSelector tag element (ancestor_elem # rest) events =
     (let ancestor_tag_name = toLowerCase (tagName ancestor_elem);
          ancestor_attribute_events =
            extractEventsFromAttributes getSelector ancestor_tag_name ancestor_elem
      in if ancestor_attribute_events = []
         then ancestors_loop getSelector tag element rest events
         else ancestors_loop getSelector tag element rest
                (rescope_loop getSelector tag element ancestor_attribute_events events))"

definition extractInheritedEvents ::
  "(target \<Rightarrow> string) \<Rightarrow> (element \<Rightarrow> string \<Rightarrow> bool) \<Rightarrow> string \<Rightarrow> element \<Rightarrow> edata list"
  where
  "extractInheritedEvents getSelector matches tag element =
     (if tag \<notin> set elements_allowed_to_inherit_events_from_ancestors then []
      else ancestors_loop getSelector tag element
             (getAncestors matches (Elem element) None) [])"

section \<open>Deduplication\<close>

text \<open>
  \<^verbatim>\<open>JSON.stringify\<close> on an \<^verbatim>\<open>edata\<close> object. Strings are quoted as ECMAScript's
  QuoteJSONString does: backspace, tab, line feed, form feed, carriage return, the double
  quote and the backslash get their two-character escapes, any other control character
  below U+0020 becomes \<^verbatim>\<open>\u00\<close> followed by two lower-case hexadecimal digits, and every
  other character stands for itself. Characters are the 8-bit \<open>char\<close> of HOL, read as the
  code units below U+0100.
\<close>

definition dquote :: char where
  "dquote = CHR 0x22"

definition bslash :: char where
  "bslash = CHR 0x5C"

definition hex_digit :: "nat \<Rightarrow> char" where
  "hex_digit n = ''0123456789abcdef'' ! (n mod 16)"

definition escape_char :: "char \<Rightarrow> string" where
  "escape_char c =
     (if c = CHR 0x08 then [bslash, CHR ''b'']
      else if c = CHR 0x09 then [bslash, CHR ''t'']
      else if c = CHR 0x0A then [bslash, CHR ''n'']
      else if c = CHR 0x0C then [bslash, CHR ''f'']
      else if c = CHR 0x0D then [bslash, CHR ''r'']
      else if c = dquote then [bslash, dquote]
      else if c = bslash then [bslash, bslash]
      else if (of_char c :: nat) < 32
        then [bslash, CHR ''u'', CHR ''0'', CHR ''0'',
              hex_digit (of_char c div 16), hex_digit (of_char c mod 16)]
      else [c])"

definition QuoteJSONString :: "string \<Rightarrow> string" where
  "QuoteJSONString s = dquote # concat (map escape_char s) @ [dquote]"

text \<open>A non-negative integer prints in decimal, without leading zeros.\<close>

definition digit_char :: "nat \<Rightarrow> char" where
  "digit_char n = ''0123456789'' ! (n mod 10)"

fun NumberToString :: "nat \<Rightarrow> string" where
  "NumberToString n =
     (if n < 10 then [digit_char n] else NumberToString (n div 10) @ [digit_char (n mod 10)])"

declare NumberToString.simps [simp del]

definition JSON_stringify :: "edata \<Rightarrow> string" where
  "JSON_stringify d =
     ''{'' @ QuoteJSONString ''tag_name'' @ '':'' @ QuoteJSONString (tag_name d) @
     '','' @ QuoteJSONString ''node_type'' @ '':'' @ NumberToString (node_type d) @
     '','' @ QuoteJSONString ''selector'' @ '':'' @ QuoteJSONString (selector d) @
     '','' @ QuoteJSONString ''event_type'' @ '':'' @ QuoteJSONString (event_type d) @
     '','' @ QuoteJSONString ''handler'' @ '':'' @ QuoteJSONString (handler d) @ ''}''"

text \<open>\<^verbatim>\<open>a.splice(j, 1)\<close> removes the entry at index \<open>j\<close>.\<close>

definition splice :: "'a list \<Rightarrow> nat \<Rightarrow> 'a list" where
  "splice a j = take j a @ drop (Suc j) a"

text \<open>
  The inner loop of \<^verbatim>\<open>objectArrayUniq\<close>. After \<^verbatim>\<open>a.splice(j--, 1)\<close> the loop's \<^verbatim>\<open>++j\<close>
  restores \<open>j\<close>, so the next round looks at the same index of the shortened array.
\<close>

function uniq_inner :: "edata list \<Rightarrow> string \<Rightarrow> nat \<Rightarrow> edata list" where
  "uniq_inner a i_str j =
     (if j < length a
      then if i_str = JSON_stringify (a ! j)
           then uniq_inner (splice a j) i_str j
           else uniq_inner a i_str (Suc j)
      else a)"
  by pat_completeness auto
termination
  by (relation "measure (\<lambda>(a, i_str, j). length a - j)") (auto simp: splice_def)

declare uniq_inner.simps [simp del]

lemma length_uniq_inner: "length (uniq_inner a i_str j) \<le> length a"
proof (induction a i_str j rule: uniq_inner.induct)
  case (1 a i_str j)
  show ?case
  proof (cases "j < length a")
    case False
    then show ?thesis
      by (simp add: uniq_inner.simps [of a])
  next
    case True
    have "length (splice a j) \<le> length a"
      by (simp add: splice_def)
    with 1 True show ?thesis
      by (cases "i_str = JSON_stringify (a ! j)") (simp_all add: uniq_inner.simps [of a])
  qed
qed

function uniq_outer :: "edata list \<Rightarrow> nat \<Rightarrow> edata list" where
  "uniq_outer a i =
     (if i < length a
      then uniq_outer (uniq_inner a (JSON_stringify (a ! i)) (Suc i)) (Suc i)
      else a)"
  by pat_completeness auto
termination
proof (relation "measure (\<lambda>(a, i). length a - i)")
  show "wf (measure (\<lambda>(a, i). length a - i))"
    by simp
next
  fix a :: "edata list" and i :: nat
  assume "i < length a"
  moreover have "length (uniq_inner a (JSON_stringify (a ! i)) (Suc i)) \<le> length a"
    by (rule length_uniq_inner)
  ultimately show "((uniq_inner a (JSON_stringify (a ! i)) (Suc i), Suc i), (a, i))
                     \<in> measure (\<lambda>(a, i). length a - i)"
    by simp
qed

declare uniq_outer.simps [simp del]

text \<open>\<^verbatim>\<open>array.concat()\<close> copies the argument, so the caller's list is not changed.\<close>

definition objectArrayUniq :: "edata list \<Rightarrow> edata list" where
  "objectArrayUniq array = uniq_outer array 0"

section \<open>The document-wide query\<close>

text \<open>
  \<^verbatim>\<open>elementIsHidden\<close>: \<^verbatim>\<open>null\<close> is hidden; the document has no \<^verbatim>\<open>offsetWidth\<close>, and
  \<^verbatim>\<open>undefined <= 0\<close> is false.
\<close>

definition elementIsHidden :: "node \<Rightarrow> bool" where
  "elementIsHidden element =
     (case element of
        Null \<Rightarrow> True
      | Document \<Rightarrow> False
      | Elem e \<Rightarrow> offsetWidth e \<le> 0 \<and> offsetHeight e \<le> 0)"

definition filterByEventName :: "edata list \<Rightarrow> string list \<Rightarrow> edata list" where
  "filterByEventName element_events event_filter =
     (if length event_filter = 0 then element_events
      else filter (\<lambda>ev. event_type ev \<in> set event_filter) element_events)"

text \<open>
  The loop of \<^verbatim>\<open>getElementsWithEventHandlers\<close> over
  \<^verbatim>\<open>document.getElementsByTagName("*")\<close>, the elements of the document in document order.
\<close>

fun elements_loop ::
  "(target \<Rightarrow> string) \<Rightarrow> (element \<Rightarrow> string \<Rightarrow> bool) \<Rightarrow> element list \<Rightarrow> string list \<Rightarrow>
   edata list \<Rightarrow> edata list" where
  "elements_loop getSelector matches [] event_filter events = events"
| "elements_loop getSelector matches (element # rest) event_filter events =
     (if elementIsHidden (Elem element)
      then elements_loop getSelector matches rest event_filter events
      else
        let tag = toLowerCase (tagName element);
            attribute_events = extractEventsFromAttributes getSelector tag element;
            inherited_events = extractInheritedEvents getSelector matches tag element;
            element_events = objectArrayUniq (([] @ attribute_events) @ inherited_events)
        in if element_events = []
           then elements_loop getSelector matches rest event_filter events
           else elements_loop getSelector matches rest event_filter
                  (events @ filterByEventName element_events event_filter))"

definition getElementsWithEventHandlers ::
  "(target \<Rightarrow> string) \<Rightarrow> (element \<Rightarrow> string \<Rightarrow> bool) \<Rightarrow> element list \<Rightarrow> string list \<Rightarrow>
   edata list" where
  "getElementsWithEventHandlers getSelector matches all_elements event_filter =
     elements_loop getSelector matches all_elements event_filter []"

section \<open>The interception layer\<close>

text \<open>
  The records pushed on \<^verbatim>\<open>set_timeouts\<close> and \<^verbatim>\<open>set_intervals\<close> (the key \<^verbatim>\<open>"function"\<close> is
  written \<open>function_\<close>, as the local variable of the source is) and on
  \<^verbatim>\<open>event_listeners\<close> (the keys carry the prefix \<open>el_\<close>, since \<open>edata\<close> has fields of the
  same names).
\<close>

record timer_record =
  function_ :: jsval
  timeout :: jsval

record listener_record =
  el_tag_name :: string
  el_node_type :: jsval
  el_selector :: string
  el_event_type :: jsval
  el_use_capture :: jsval

text \<open>
  Function values. The three native entry points, and the closures that the
  \<^verbatim>\<open>override_*\<close> functions create; each closure holds the function it captured in its
  \<^verbatim>\<open>original_*\<close> variable.
\<close>

datatype fn =
    Native_setTimeout
  | Native_setInterval
  | Native_addEventListener
  | SetTimeout_wrapper fn
  | SetInterval_wrapper fn
  | Window_addEventListener_wrapper fn
  | Document_addEventListener_wrapper fn
  | Node_addEventListener_wrapper fn

text \<open>The event object that \<^verbatim>\<open>dispatchCustomEvent\<close> builds.\<close>

record dom_event =
  ev_type :: string
  bubbles :: bool
  cancelable :: bool
  altKey :: bool
  shiftKey :: bool
  ctrlKey :: bool
  metaKey :: bool
  view :: target

text \<open>
  The state of the page: the fields of \<^verbatim>\<open>_DOMAnalyzer\<close>, the five properties that the
  analyzer overwrites, and what the analyzer reads from or does to the platform:
  \<^item> \<open>window_event\<close> is the global \<^verbatim>\<open>event\<close> (\<^verbatim>\<open>window.event\<close>), undefined while no event
    is being handled;
  \<^item> \<open>window_tagName\<close> and \<open>document_tagName\<close> are the \<^verbatim>\<open>tagName\<close> properties of the
    window and of the document, \<open>None\<close> (undefined) unless a page script has defined them;
  \<^item> \<open>native_calls\<close> logs every call that reaches a native entry point, with its
    \<^verbatim>\<open>this\<close> and arguments; \<open>next_timer_id\<close> is the identifier the next native timer
    call returns;
  \<^item> \<open>dispatched\<close> logs the events given to \<^verbatim>\<open>dispatchEvent\<close>.
\<close>

record page =
  initialized :: bool
  set_timeouts :: "timer_record list"
  set_intervals :: "timer_record list"
  event_listeners :: "listener_record list"
  window_setTimeout :: fn
  window_setInterval :: fn
  window_addEventListener :: fn
  document_addEventListener :: fn
  node_addEventListener :: fn
  window_event :: jsval
  window_tagName :: "string option"
  document_tagName :: "string option"
  native_calls :: "(fn \<times> target \<times> jsval list) list"
  next_timer_id :: int
  dispatched :: "(node \<times> dom_event) list"

text \<open>A page before the analyzer's script has run.\<close>

definition fresh_page :: page where
  "fresh_page =
     \<lparr>initialized = False, set_timeouts = [], set_intervals = [], event_listeners = [],
      window_setTimeout = Native_setTimeout, window_setInterval = Native_setInterval,
      window_addEventListener = Native_addEventListener,
      document_addEventListener = Native_addEventListener,
      node_addEventListener = Native_addEventListener,
      window_event = Undefined, window_tagName = None, document_tagName = None,
      native_calls = [], next_timer_id = 1, dispatched = []\<rparr>"

definition override_setTimeout :: "page \<Rightarrow> page" where
  "override_setTimeout p =
     (let original_setTimeout = window_setTimeout p
      in p\<lparr>window_setTimeout := SetTimeout_wrapper original_setTimeout\<rparr>)"

definition override_setInterval :: "page \<Rightarrow> page" where
  "override_setInterval p =
     (let original_setInterval = window_setInterval p
      in p\<lparr>window_setInterval := SetInterval_wrapper original_setInterval\<rparr>)"

definition override_addEventListener :: "page \<Rightarrow> page" where
  "override_addEventListener p =
     (let original_window_addEventListener = window_addEventListener p;
          p1 = p\<lparr>window_addEventListener :=
                   Window_addEventListener_wrapper original_window_addEventListener\<rparr>;
          original_document_addEventListener = document_addEventListener p1;
          p2 = p1\<lparr>document_addEventListener :=
                     Document_addEventListener_wrapper original_document_addEventListener\<rparr>;
          original_node_addEventListener = node_addEventListener p2
      in p2\<lparr>node_addEventListener :=
               Node_addEventListener_wrapper original_node_addEventListener\<rparr>)"

definition initialize :: "page \<Rightarrow> page" where
  "initialize p =
     (if initialized p then p
      else override_setInterval
             (override_setTimeout (override_addEventListener (p\<lparr>initialized := True\<rparr>))))"

text \<open>
  Property reads on the first argument of \<^verbatim>\<open>storeEventListenerData\<close>. \<^verbatim>\<open>element.tagName\<close> is
  a string on an element and undefined (\<open>None\<close>) elsewhere, unless the page defined it;
  \<^verbatim>\<open>element.nodeType\<close> is 1 on an element, 9 on the document, undefined on the window.
\<close>

definition tagName_of :: "page \<Rightarrow> target \<Rightarrow> string option" where
  "tagName_of p t =
     (case t of
        Window \<Rightarrow> window_tagName p
      | Node Null \<Rightarrow> None
      | Node Document \<Rightarrow> document_tagName p
      | Node (Elem e) \<Rightarrow> Some (tagName e))"

definition nodeType_of :: "target \<Rightarrow> jsval" where
  "nodeType_of t =
     (case t of
        Window \<Rightarrow> Undefined
      | Node Null \<Rightarrow> Undefined
      | Node Document \<Rightarrow> Num 9
      | Node (Elem e) \<Rightarrow> Num (int (nodeType e)))"

text \<open>
  \<^verbatim>\<open>storeEventListenerData\<close>: \<^verbatim>\<open>element.tagName.toLowerCase()\<close> raises a TypeError when
  \<^verbatim>\<open>element.tagName\<close> is undefined, before anything is pushed.
\<close>

definition storeEventListenerData ::
  "(target \<Rightarrow> string) \<Rightarrow> target \<Rightarrow> jsval \<Rightarrow> jsval \<Rightarrow> jsval \<Rightarrow> page \<Rightarrow> error + page" where
  "storeEventListenerData getSelector element etype listener useCapture p =
     (let sel = getSelector element
      in case tagName_of p element of
           None \<Rightarrow> Inl TypeError
         | Some t \<Rightarrow>
             Inr (p\<lparr>event_listeners := event_listeners p @
                     [\<lparr>el_tag_name = toLowerCase t, el_node_type = nodeType_of element,
                       el_selector = sel, el_event_type = etype,
                       el_use_capture = useCapture\<rparr>]\<rparr>))"

text \<open>\<^verbatim>\<open>arguments[n]\<close>, and a named parameter: undefined when the call passed fewer arguments.\<close>

definition arg :: "nat \<Rightarrow> jsval list \<Rightarrow> jsval" where
  "arg n args = (if n < length args then args ! n else Undefined)"

text \<open>
  Calling a function value with a \<^verbatim>\<open>this\<close> and an argument list. The native timer
  functions return a fresh timer identifier, the native \<^verbatim>\<open>addEventListener\<close> returns
  undefined. A wrapper has no \<^verbatim>\<open>return\<close> statement: when its body completes it returns
  undefined.
\<close>

fun call ::
  "(target \<Rightarrow> string) \<Rightarrow> fn \<Rightarrow> target \<Rightarrow> jsval list \<Rightarrow> page \<Rightarrow> (error + jsval) \<times> page"
  where
  "call getSelector Native_setTimeout this_arg args p =
     (Inr (Num (next_timer_id p)),
      p\<lparr>native_calls := native_calls p @ [(Native_setTimeout, this_arg, args)],
        next_timer_id := next_timer_id p + 1\<rparr>)"
| "call getSelector Native_setInterval this_arg args p =
     (Inr (Num (next_timer_id p)),
      p\<lparr>native_calls := native_calls p @ [(Native_setInterval, this_arg, args)],
        next_timer_id := next_timer_id p + 1\<rparr>)"
| "call getSelector Native_addEventListener this_arg args p =
     (Inr Undefined,
      p\<lparr>native_calls := native_calls p @ [(Native_addEventListener, this_arg, args)]\<rparr>)"
| "call getSelector (SetTimeout_wrapper original_setTimeout) this_arg args p =
     (let p1 = p\<lparr>set_timeouts := set_timeouts p @
                   [\<lparr>function_ = arg 0 args, timeout = arg 1 args\<rparr>]\<rparr>
      in case call getSelector original_setTimeout this_arg args p1 of
           (Inl e, p2) \<Rightarrow> (Inl e, p2)
         | (Inr r, p2) \<Rightarrow> (Inr Undefined, p2))"
| "call getSelector (SetInterval_wrapper original_setInterval) this_arg args p =
     (let p1 = p\<lparr>set_intervals := set_intervals p @
                   [\<lparr>function_ = arg 0 args, timeout = arg 1 args\<rparr>]\<rparr>
      in case call getSelector original_setInterval this_arg args p1 of
           (Inl e, p2) \<Rightarrow> (Inl e, p2)
         | (Inr r, p2) \<Rightarrow> (Inr Undefined, p2))"
| "call getSelector (Window_addEventListener_wrapper original) this_arg args p =
     (case storeEventListenerData getSelector Window (arg 0 args) (arg 1 args) (arg 2 args) p of
        Inl e \<Rightarrow> (Inl e, p)
      | Inr p1 \<Rightarrow>
          (case call getSelector original Window args p1 of
             (Inl e, p2) \<Rightarrow> (Inl e, p2)
           | (Inr r, p2) \<Rightarrow> (Inr Undefined, p2)))"
| "call getSelector (Document_addEventListener_wrapper original) this_arg args p =
     (case storeEventListenerData getSelector (Node Document) (window_event p) (arg 1 args)
             (arg 2 args) p of
        Inl e \<Rightarrow> (Inl e, p)
      | Inr p1 \<Rightarrow>
          (case call getSelector original (Node Document) args p1 of
             (Inl e, p2) \<Rightarrow> (Inl e, p2)
           | (Inr r, p2) \<Rightarrow> (Inr Undefined, p2)))"
| "call getSelector (Node_addEventListener_wrapper original) this_arg args p =
     (case storeEventListenerData getSelector this_arg (arg 0 args) (arg 1 args) (arg 2 args) p of
        Inl e \<Rightarrow> (Inl e, p)
      | Inr p1 \<Rightarrow>
          (case call getSelector original this_arg args p1 of
             (Inl e, p2) \<Rightarrow> (Inl e, p2)
           | (Inr r, p2) \<Rightarrow> (Inr Undefined, p2)))"

section \<open>Dispatch\<close>

text \<open>
  \<^verbatim>\<open>document.querySelector\<close> is the platform's: a parameter that returns the first
  matching element, \<^verbatim>\<open>null\<close> when nothing matches, and raises a SyntaxError on a string
  that is not a selector.
\<close>

definition dispatchCustomEvent ::
  "(string \<Rightarrow> error + node) \<Rightarrow> string \<Rightarrow> string \<Rightarrow> page \<Rightarrow> (error + bool) \<times> page" where
  "dispatchCustomEvent querySelector sel etype p =
     (case querySelector sel of
        Inl e \<Rightarrow> (Inl e, p)
      | Inr element \<Rightarrow>
          if element = Null then (Inr False, p)
          else if elementIsHidden element then (Inr False, p)
          else
            let event = \<lparr>ev_type = etype, bubbles = True, cancelable = True,
                         altKey = False, shiftKey = False, ctrlKey = False, metaKey = False,
                         view = Window\<rparr>
            in (Inr True, p\<lparr>dispatched := dispatched p @ [(element, event)]\<rparr>))"

section \<open>Auxiliary definitions for the proofs\<close>

text \<open>The character that a two-character escape stands for.\<close>

definition unescape_short :: "char \<Rightarrow> char" where
  "unescape_short e =
     (if e = CHR ''b'' then CHR 0x08 else if e = CHR ''t'' then CHR 0x09
      else if e = CHR ''n'' then CHR 0x0A else if e = CHR ''f'' then CHR 0x0C
      else if e = CHR ''r'' then CHR 0x0D else e)"

text \<open>
  Keeping, of the entries that agree under \<open>f\<close>, the first one: what the two loops of
  \<^verbatim>\<open>objectArrayUniq\<close> compute, as a recursion on the list.
\<close>

fun first_occurrences :: "('a \<Rightarrow> 'b) \<Rightarrow> 'a list \<Rightarrow> 'a list" where
  "first_occurrences f [] = []"
| "first_occurrences f (x # xs) = x # first_occurrences f (filter (\<lambda>y. f y \<noteq> f x) xs)"

text \<open>
  The query with no filtering step at all: the events of every element that is not hidden,
  attribute events before inherited ones, deduplicated per element, in document order.
\<close>

definition element_events ::
  "(target \<Rightarrow> string) \<Rightarrow> (element \<Rightarrow> string \<Rightarrow> bool) \<Rightarrow> element \<Rightarrow> edata list" where
  "element_events getSelector matches element =
     objectArrayUniq
       (extractEventsFromAttributes getSelector (toLowerCase (tagName element)) element @
        extractInheritedEvents getSelector matches (toLowerCase (tagName element)) element)"

definition unfiltered_events ::
  "(target \<Rightarrow> string) \<Rightarrow> (element \<Rightarrow> string \<Rightarrow> bool) \<Rightarrow> element list \<Rightarrow> edata list" where
  "unfiltered_events getSelector matches all_elements =
     concat (map (element_events getSelector matches)
               (filter (\<lambda>element. \<not> elementIsHidden (Elem element)) all_elements))"

text \<open>The object literal of \<^verbatim>\<open>extractEventsFromAttributes\<close> for one attribute.\<close>

definition mk_edata :: "string \<Rightarrow> element \<Rightarrow> string \<Rightarrow> attr \<Rightarrow> edata" where
  "mk_edata tag element sel a =
     \<lparr>tag_name = tag, node_type = nodeType element, selector = sel,
      event_type = drop 2 (nodeName a), handler = nodeValue a\<rparr>"

text \<open>The three assignments by which \<^verbatim>\<open>extractInheritedEvents\<close> re-scopes an event.\<close>

definition rescope :: "(target \<Rightarrow> string) \<Rightarrow> string \<Rightarrow> element \<Rightarrow> edata \<Rightarrow> edata" where
  "rescope getSelector tag element ev =
     ev\<lparr>tag_name := tag, selector := getSelector (Node (Elem element)),
        node_type := nodeType element\<rparr>"

text \<open>An element followed by its parent, grandparent and so on, the document excluded.\<close>

fun self_and_ancestors :: "node \<Rightarrow> element list" where
  "self_and_ancestors Null = []"
| "self_and_ancestors Document = []"
| "self_and_ancestors (Elem (Element t a w h p)) = Element t a w h p # self_and_ancestors p"

section \<open>An example page\<close>

text \<open>
  A selector generator that names an element by its tag, and a small document:
  \<^verbatim>\<open><html><body><a href="#" onclick="go()" ondblclick="twice()"><span></span></a>\<close>
  \<^verbatim>\<open><button onclick="x()"></button><div onclick="h()"></div><p myclick="1"></p></body></html>\<close>,
  in which the \<^verbatim>\<open>div\<close> has no rendered size.
\<close>

definition example_getSelector :: "target \<Rightarrow> string" where
  "example_getSelector t =
     (case t of
        Window \<Rightarrow> ''''
      | Node Null \<Rightarrow> ''''
      | Node Document \<Rightarrow> ''''
      | Node (Elem e) \<Rightarrow> ''#'' @ toLowerCase (tagName e))"

definition example_matches :: "element \<Rightarrow> string \<Rightarrow> bool" where
  "example_matches e s = (s = toLowerCase (tagName e))"

definition example_html :: element where
  "example_html = Element ''HTML'' [] 800 600 Document"

definition example_body :: element where
  "example_body = Element ''BODY'' [] 800 600 (Elem example_html)"

definition example_a :: element where
  "example_a =
     Element ''A'' [\<lparr>nodeName = ''href'', nodeValue = ''#''\<rparr>,
                    \<lparr>nodeName = ''onclick'', nodeValue = ''go()''\<rparr>,
                    \<lparr>nodeName = ''ondblclick'', nodeValue = ''twice()''\<rparr>]
       100 20 (Elem example_body)"

definition example_span :: element where
  "example_span = Element ''SPAN'' [] 80 20 (Elem example_a)"

definition example_button :: element where
  "example_button =
     Element ''BUTTON'' [\<lparr>nodeName = ''onclick'', nodeValue = ''x()''\<rparr>] 80 20 (Elem example_body)"

definition example_hidden :: element where
  "example_hidden =
     Element ''DIV'' [\<lparr>nodeName = ''onclick'', nodeValue = ''h()''\<rparr>] 0 0 (Elem example_body)"

definition example_custom :: element where
  "example_custom =
     Element ''P'' [\<lparr>nodeName = ''myclick'', nodeValue = ''1''\<rparr>] 80 20 (Elem example_body)"

definition example_querySelector :: "string \<Rightarrow> error + node" where
  "example_querySelector s =
     (if s = '''' \<or> s = ''*['' then Inl SyntaxError
      else if s = ''#button'' then Inr (Elem example_button)
      else if s = ''#div'' then Inr (Elem example_hidden)
      else Inr Null)"

section \<open>Validity\<close>

text \<open>
  C6. The validity check is true for every event name of the universal set, whatever the
  tag; for any other event name it is true exactly when the tag has a registered list
  and the event name is a member of that list; otherwise it is false.
\<close>

theorem eventIsValidForTagName_iff:
  "eventIsValidForTagName tag ev =
     (ev \<in> set universally_valid_events \<or>
      (\<exists>evs. map_of valid_events_per_element tag = Some evs \<and> ev \<in> set evs))"
  by (simp add: eventIsValidForTagName_def split: option.split)


section \<open>Serialization is injective\<close>

lemma hex_digit_inj: "m < 16 \<Longrightarrow> n < 16 \<Longrightarrow> hex_digit m = hex_digit n \<Longrightarrow> m = n"
proof -
  assume a: "m < 16" "n < 16" "hex_digit m = hex_digit n"
  have d: "distinct ''0123456789abcdef''" by simp
  have l: "length ''0123456789abcdef'' = 16" by simp
  from a have "''0123456789abcdef'' ! m = ''0123456789abcdef'' ! n"
    by (simp add: hex_digit_def)
  with d l a(1,2) show "m = n"
    by (metis nth_eq_iff_index_eq)
qed

lemma digit_char_inj: "m < 10 \<Longrightarrow> n < 10 \<Longrightarrow> digit_char m = digit_char n \<Longrightarrow> m = n"
proof -
  assume a: "m < 10" "n < 10" "digit_char m = digit_char n"
  have d: "distinct ''0123456789''" by simp
  have l: "length ''0123456789'' = 10" by simp
  from a have "''0123456789'' ! m = ''0123456789'' ! n"
    by (simp add: digit_char_def)
  with d l a(1,2) show "m = n"
    by (metis nth_eq_iff_index_eq)
qed

lemma digit_char_in: "digit_char n \<in> set ''0123456789''"
proof -
  have "n mod 10 < length ''0123456789''" by simp
  then have "''0123456789'' ! (n mod 10) \<in> set ''0123456789''"
    by (rule nth_mem)
  then show ?thesis by (simp only: digit_char_def)
qed

lemma NumberToString_digits: "c \<in> set (NumberToString n) \<Longrightarrow> c \<in> set ''0123456789''"
proof (induction n rule: NumberToString.induct)
  case (1 n)
  define D where "D = set ''0123456789''"
  have dc: "digit_char k \<in> D" for k
    unfolding D_def by (rule digit_char_in)
  show ?case
  proof (cases "n < 10")
    case True
    with 1(2) have "c = digit_char n" by (simp add: NumberToString.simps [of n])
    then show ?thesis using dc [of n] by (simp only: D_def)
  next
    case False
    with 1(2) have "c \<in> set (NumberToString (n div 10)) \<or> c = digit_char (n mod 10)"
      by (subst (asm) NumberToString.simps) auto
    then show ?thesis
    proof
      assume "c \<in> set (NumberToString (n div 10))"
      with 1(1) False show ?thesis by blast
    next
      assume "c = digit_char (n mod 10)"
      then show ?thesis using dc [of "n mod 10"] by (simp only: D_def)
    qed
  qed
qed

lemma NumberToString_nonempty: "NumberToString n \<noteq> []"
  by (subst NumberToString.simps) simp

lemma NumberToString_inj: "NumberToString n = NumberToString m \<Longrightarrow> n = m"
proof (induction n arbitrary: m rule: NumberToString.induct)
  case (1 n)
  show ?case
  proof (cases "n < 10")
    case n: True
    show ?thesis
    proof (cases "m < 10")
      case True
      with n 1(2) show ?thesis
        by (simp add: NumberToString.simps [of n] NumberToString.simps [of m] digit_char_inj)
    next
      case False
      with n 1(2) NumberToString_nonempty [of "m div 10"] show ?thesis
        by (simp add: NumberToString.simps [of n] NumberToString.simps [of m])
    qed
  next
    case n: False
    show ?thesis
    proof (cases "m < 10")
      case True
      with n 1(2) NumberToString_nonempty [of "n div 10"] show ?thesis
        by (simp add: NumberToString.simps [of n] NumberToString.simps [of m])
    next
      case False
      with n 1(2) have e: "NumberToString (n div 10) = NumberToString (m div 10)"
        and d: "digit_char (n mod 10) = digit_char (m mod 10)"
        by (simp_all add: NumberToString.simps [of n] NumberToString.simps [of m])
      from 1(1) [OF n e] have "n div 10 = m div 10" .
      moreover from d have "n mod 10 = m mod 10"
        by (simp add: digit_char_inj)
      ultimately show ?thesis
        by (metis div_mult_mod_eq)
    qed
  qed
qed

lemma NumberToString_comma:
  assumes "NumberToString n @ CHR '','' # r = NumberToString m @ CHR '','' # r'"
  shows "n = m \<and> r = r'"
proof -
  let ?P = "\<lambda>c. c \<in> set ''0123456789''"
  have tw: "takeWhile ?P (NumberToString k @ CHR '','' # s) = NumberToString k" for k s
  proof -
    have "\<And>x. x \<in> set (NumberToString k) \<Longrightarrow> ?P x"
      by (rule NumberToString_digits)
    then have "takeWhile ?P (NumberToString k @ CHR '','' # s)
                 = NumberToString k @ takeWhile ?P (CHR '','' # s)"
      by (rule takeWhile_append2)
    then show ?thesis by simp
  qed
  from assms have "takeWhile ?P (NumberToString n @ CHR '','' # r)
                     = takeWhile ?P (NumberToString m @ CHR '','' # r')"
    by (rule arg_cong)
  then have e: "NumberToString n = NumberToString m"
    by (simp only: tw)
  then have "n = m"
    by (rule NumberToString_inj)
  with assms show ?thesis
    by simp
qed

lemma escape_char_not_dquote: "escape_char c @ r \<noteq> dquote # r'"
  by (simp add: escape_char_def dquote_def bslash_def)

lemma low_char_eq:
  assumes "(of_char c :: nat) < 32" "(of_char c' :: nat) < 32"
    and "hex_digit (of_char c div 16) = hex_digit (of_char c' div 16)"
    and "hex_digit (of_char c mod 16) = hex_digit (of_char c' mod 16)"
  shows "c = c'"
proof -
  let ?n = "of_char c :: nat" and ?m = "of_char c' :: nat"
  from assms(1,2) have "?n div 16 < 16" "?m div 16 < 16" by simp_all
  with assms(3) have q: "?n div 16 = ?m div 16" by (rule hex_digit_inj [rotated 2])
  have "?n mod 16 < 16" "?m mod 16 < 16" by simp_all
  with assms(4) have r: "?n mod 16 = ?m mod 16" by (rule hex_digit_inj [rotated 2])
  from q r have "?n = ?m" by (metis div_mult_mod_eq)
  then show ?thesis by simp
qed

lemma escape_char_cases:
  obtains (short) e where "escape_char c = [bslash, e]" "e \<noteq> CHR ''u''" "unescape_short e = c"
    | (low) "escape_char c = [bslash, CHR ''u'', CHR ''0'', CHR ''0'',
               hex_digit (of_char c div 16), hex_digit (of_char c mod 16)]"
            "(of_char c :: nat) < 32"
    | (plain) "escape_char c = [c]" "c \<noteq> bslash"
proof -
  consider "c = CHR 0x08" | "c = CHR 0x09" | "c = CHR 0x0A" | "c = CHR 0x0C" | "c = CHR 0x0D"
    | "c = dquote" | "c = bslash"
    | "c \<noteq> CHR 0x08" "c \<noteq> CHR 0x09" "c \<noteq> CHR 0x0A" "c \<noteq> CHR 0x0C" "c \<noteq> CHR 0x0D"
      "c \<noteq> dquote" "c \<noteq> bslash"
    by blast
  then show thesis
  proof cases
    case 1
    then show thesis
      by (intro short [of "CHR ''b''"]) (simp_all add: escape_char_def unescape_short_def)
  next
    case 2
    then show thesis
      by (intro short [of "CHR ''t''"]) (simp_all add: escape_char_def unescape_short_def)
  next
    case 3
    then show thesis
      by (intro short [of "CHR ''n''"]) (simp_all add: escape_char_def unescape_short_def)
  next
    case 4
    then show thesis
      by (intro short [of "CHR ''f''"]) (simp_all add: escape_char_def unescape_short_def)
  next
    case 5
    then show thesis
      by (intro short [of "CHR ''r''"]) (simp_all add: escape_char_def unescape_short_def)
  next
    case 6
    then show thesis
      by (intro short [of dquote])
        (simp_all add: escape_char_def unescape_short_def dquote_def)
  next
    case 7
    then show thesis
      by (intro short [of bslash])
        (simp_all add: escape_char_def unescape_short_def dquote_def bslash_def)
  next
    case 8
    show thesis
    proof (cases "(of_char c :: nat) < 32")
      case True
      with 8 show thesis
        by (intro low) (simp_all add: escape_char_def)
    next
      case False
      with 8 show thesis
        by (intro plain) (simp_all add: escape_char_def)
    qed
  qed
qed

lemma escape_char_prefix:
  assumes "escape_char c @ r = escape_char c' @ r'"
  shows "c = c' \<and> r = r'"
proof (cases c rule: escape_char_cases)
  case (short e)
  show ?thesis
  proof (cases c' rule: escape_char_cases)
    case short': (short e')
    from assms short(1) short'(1) have "e = e'" "r = r'"
      by simp_all
    with short(3) short'(3) show ?thesis
      by simp
  next
    case low
    with assms short(1,2) show ?thesis
      by simp
  next
    case plain
    with assms short(1) show ?thesis
      by simp
  qed
next
  case low
  show ?thesis
  proof (cases c' rule: escape_char_cases)
    case (short e')
    with assms low(1) show ?thesis
      by simp
  next
    case low': low
    from assms low(1) low'(1)
    have "hex_digit (of_char c div 16) = hex_digit (of_char c' div 16)"
      "hex_digit (of_char c mod 16) = hex_digit (of_char c' mod 16)" "r = r'"
      by simp_all
    with low(2) low'(2) show ?thesis
      by (simp add: low_char_eq)
  next
    case plain
    with assms low(1) show ?thesis
      by simp
  qed
next
  case plain
  show ?thesis
  proof (cases c' rule: escape_char_cases)
    case (short e')
    with assms plain show ?thesis
      by simp
  next
    case low
    with assms plain show ?thesis
      by simp
  next
    case plain': plain
    with assms plain show ?thesis
      by simp
  qed
qed

lemma escape_body_inj:
  "concat (map escape_char s) @ dquote # r = concat (map escape_char s') @ dquote # r'
   \<Longrightarrow> s = s' \<and> r = r'"
proof (induction s arbitrary: s')
  case Nil
  then show ?case
    by (cases s') (simp_all add: escape_char_not_dquote [symmetric])
next
  case (Cons c s)
  show ?case
  proof (cases s')
    case Nil
    with Cons.prems show ?thesis
      by (simp add: escape_char_not_dquote)
  next
    case (Cons c' t)
    with Cons.prems have "escape_char c @ (concat (map escape_char s) @ dquote # r)
        = escape_char c' @ (concat (map escape_char t) @ dquote # r')"
      by simp
    then have "c = c'" and "concat (map escape_char s) @ dquote # r
        = concat (map escape_char t) @ dquote # r'"
      by (auto dest: escape_char_prefix)
    with Cons.IH [of t] Cons show ?thesis by simp
  qed
qed

lemma QuoteJSONString_inj:
  assumes "QuoteJSONString s @ r = QuoteJSONString s' @ r'"
  shows "s = s' \<and> r = r'"
proof -
  from assms have "concat (map escape_char s) @ dquote # r
      = concat (map escape_char s') @ dquote # r'"
    by (simp add: QuoteJSONString_def)
  then show ?thesis
    by (rule escape_body_inj)
qed

lemma JSON_stringify_inj:
  assumes "JSON_stringify d = JSON_stringify d'"
  shows "d = d'"
proof -
  let ?rest4 = "\<lambda>x. '':'' @ QuoteJSONString (handler x) @ ''}''"
  let ?rest3 = "\<lambda>x. '':'' @ QuoteJSONString (event_type x) @ '','' @ QuoteJSONString ''handler'' @ ?rest4 x"
  let ?rest2 = "\<lambda>x. '':'' @ QuoteJSONString (selector x) @ '','' @ QuoteJSONString ''event_type'' @ ?rest3 x"
  let ?rest1 = "\<lambda>x. QuoteJSONString ''selector'' @ ?rest2 x"
  from assms have "QuoteJSONString (tag_name d) @ '','' @ QuoteJSONString ''node_type'' @ '':'' @ NumberToString (node_type d) @ CHR '','' # ?rest1 d
      = QuoteJSONString (tag_name d') @ '','' @ QuoteJSONString ''node_type'' @ '':'' @ NumberToString (node_type d') @ CHR '','' # ?rest1 d'"
    by (simp add: JSON_stringify_def)
  then have t: "tag_name d = tag_name d'"
    and "'','' @ QuoteJSONString ''node_type'' @ '':'' @ NumberToString (node_type d) @ CHR '','' # ?rest1 d
      = '','' @ QuoteJSONString ''node_type'' @ '':'' @ NumberToString (node_type d') @ CHR '','' # ?rest1 d'"
    by (auto dest!: QuoteJSONString_inj)
  then have "NumberToString (node_type d) @ CHR '','' # ?rest1 d
      = NumberToString (node_type d') @ CHR '','' # ?rest1 d'"
    by simp
  then have n: "node_type d = node_type d'" and "?rest1 d = ?rest1 d'"
    by (auto dest!: NumberToString_comma)
  then have "QuoteJSONString (selector d) @ '','' @ QuoteJSONString ''event_type'' @ ?rest3 d
      = QuoteJSONString (selector d') @ '','' @ QuoteJSONString ''event_type'' @ ?rest3 d'"
    by simp
  then have s: "selector d = selector d'"
    and "'','' @ QuoteJSONString ''event_type'' @ ?rest3 d = '','' @ QuoteJSONString ''event_type'' @ ?rest3 d'"
    by (auto dest!: QuoteJSONString_inj)
  then have "QuoteJSONString (event_type d) @ '','' @ QuoteJSONString ''handler'' @ ?rest4 d
      = QuoteJSONString (event_type d') @ '','' @ QuoteJSONString ''handler'' @ ?rest4 d'"
    by simp
  then have e: "event_type d = event_type d'"
    and "'','' @ QuoteJSONString ''handler'' @ ?rest4 d = '','' @ QuoteJSONString ''handler'' @ ?rest4 d'"
    by (auto dest!: QuoteJSONString_inj)
  then have "QuoteJSONString (handler d) @ ''}'' = QuoteJSONString (handler d') @ ''}''"
    by simp
  then have "QuoteJSONString (handler d) @ [] = QuoteJSONString (handler d') @ []"
    by simp
  then have "handler d = handler d' \<and> ([] :: string) = []"
    by (rule QuoteJSONString_inj)
  then have h: "handler d = handler d'"
    by simp
  from t n s e h show ?thesis
    by simp
qed

section \<open>Deduplication is by structural equality\<close>

lemma uniq_inner_eq:
  "uniq_inner a i_str j = take j a @ filter (\<lambda>x. JSON_stringify x \<noteq> i_str) (drop j a)"
proof (induction a i_str j rule: uniq_inner.induct)
  case (1 a i_str j)
  show ?case
  proof (cases "j < length a")
    case False
    then show ?thesis
      by (simp add: uniq_inner.simps [of a])
  next
    case True
    then have d: "drop j a = a ! j # drop (Suc j) a"
      by (simp add: Cons_nth_drop_Suc)
    show ?thesis
    proof (cases "i_str = JSON_stringify (a ! j)")
      case eq: True
      have "take j (splice a j) = take j a" "drop j (splice a j) = drop (Suc j) a"
        using True by (simp_all add: splice_def min_def)
      with 1(1) [OF True eq] True eq d show ?thesis
        by (simp add: uniq_inner.simps [of a])
    next
      case neq: False
      with 1(2) [OF True neq] True d show ?thesis
        by (simp add: uniq_inner.simps [of a] take_Suc_conv_app_nth)
    qed
  qed
qed

lemma uniq_outer_eq:
  "uniq_outer a i = take i a @ first_occurrences JSON_stringify (drop i a)"
proof (induction a i rule: uniq_outer.induct)
  case (1 a i)
  show ?case
  proof (cases "i < length a")
    case False
    then show ?thesis
      by (simp add: uniq_outer.simps [of a])
  next
    case True
    let ?a' = "uniq_inner a (JSON_stringify (a ! i)) (Suc i)"
    have a': "?a' = take (Suc i) a @ filter (\<lambda>x. JSON_stringify x \<noteq> JSON_stringify (a ! i)) (drop (Suc i) a)"
      by (rule uniq_inner_eq)
    from True have l: "length (take (Suc i) a) = Suc i"
      by simp
    have "take (Suc i) ?a' = take (Suc i) a"
      using True by (subst a') (simp add: l del: take_Suc)
    moreover have "drop (Suc i) ?a' = filter (\<lambda>x. JSON_stringify x \<noteq> JSON_stringify (a ! i)) (drop (Suc i) a)"
      using True by (subst a') (simp add: l min_def del: take_Suc)
    moreover from True have "drop i a = a ! i # drop (Suc i) a"
      by (simp add: Cons_nth_drop_Suc)
    moreover have "uniq_outer a i = uniq_outer ?a' (Suc i)"
      using True by (simp add: uniq_outer.simps [of a])
    ultimately show ?thesis
      using 1 [OF True] True by (simp add: take_Suc_conv_app_nth)
  qed
qed

lemma objectArrayUniq_eq: "objectArrayUniq xs = first_occurrences JSON_stringify xs"
  by (simp add: objectArrayUniq_def uniq_outer_eq)

lemma set_first_occurrences: "f ` set (first_occurrences f xs) = f ` set xs"
proof (induction f xs rule: first_occurrences.induct)
  case (1 f)
  show ?case by simp
next
  case (2 f x xs)
  then show ?case by auto
qed

lemma first_occurrences_subset: "set (first_occurrences f xs) \<subseteq> set xs"
  by (induction f xs rule: first_occurrences.induct) auto

lemma distinct_first_occurrences: "distinct (map f (first_occurrences f xs))"
proof (induction f xs rule: first_occurrences.induct)
  case (1 f)
  show ?case by simp
next
  case (2 f x xs)
  have "f ` set (first_occurrences f (filter (\<lambda>y. f y \<noteq> f x) xs))
          = f ` set (filter (\<lambda>y. f y \<noteq> f x) xs)"
    by (rule set_first_occurrences)
  then have "f x \<notin> f ` set (first_occurrences f (filter (\<lambda>y. f y \<noteq> f x) xs))"
    by auto
  with 2 show ?case by simp
qed

lemma subseq_first_occurrences: "subseq (first_occurrences f xs) xs"
proof (induction f xs rule: first_occurrences.induct)
  case (1 f)
  show ?case by simp
next
  case (2 f x xs)
  have "subseq (filter (\<lambda>y. f y \<noteq> f x) xs) xs"
    by simp
  with 2 have "subseq (first_occurrences f (filter (\<lambda>y. f y \<noteq> f x) xs)) xs"
    by (rule subseq_order.trans)
  then show ?case by simp
qed

lemma first_occurrences_inj:
  assumes "inj f"
  shows "set (first_occurrences f xs) = set xs"
proof -
  have "f ` set (first_occurrences f xs) = f ` set xs"
    by (rule set_first_occurrences)
  with assms show ?thesis
    by (simp add: inj_image_eq_iff)
qed

lemma first_occurrences_append:
  "first_occurrences f (xs @ ys) =
     first_occurrences f xs @ first_occurrences f (filter (\<lambda>y. f y \<notin> f ` set xs) ys)"
proof (induction f xs arbitrary: ys rule: first_occurrences.induct)
  case (1 f)
  show ?case by simp
next
  case (2 f x xs)
  have "filter (\<lambda>y. f y \<notin> f ` set (filter (\<lambda>y. f y \<noteq> f x) xs)) (filter (\<lambda>y. f y \<noteq> f x) ys)
          = filter (\<lambda>y. f y \<notin> f ` set (x # xs)) ys"
    by (induction ys) auto
  with 2 [of "filter (\<lambda>y. f y \<noteq> f x) ys"] show ?case
    by simp
qed


lemma inj_JSON_stringify: "inj JSON_stringify"
  by (rule injI) (rule JSON_stringify_inj)

lemma objectArrayUniq_Nil: "objectArrayUniq [] = []"
  by (simp add: objectArrayUniq_eq)

lemma objectArrayUniq_Cons:
  "objectArrayUniq (x # xs) = x # objectArrayUniq (filter (\<lambda>y. y \<noteq> x) xs)"
proof -
  have "(\<lambda>y. JSON_stringify y \<noteq> JSON_stringify x) = (\<lambda>y. y \<noteq> x)"
    using JSON_stringify_inj by blast
  then show ?thesis
    by (simp add: objectArrayUniq_eq)
qed

text \<open>
  C7. The per-element merge deduplicates by structural equality over all fields: in the
  output no two entries are equal, every entry of the input occurs in the output (so two
  entries that differ in a field, such as the handler source, both remain), the entries
  keep their relative order, and each entry removes exactly the later entries equal to it.
\<close>

theorem objectArrayUniq_structural:
  "distinct (objectArrayUniq xs) \<and> set (objectArrayUniq xs) = set xs \<and>
   subseq (objectArrayUniq xs) xs \<and>
   objectArrayUniq (x # xs) = x # objectArrayUniq (filter (\<lambda>y. y \<noteq> x) xs)"
proof -
  have "distinct (map JSON_stringify (objectArrayUniq xs))"
    by (simp only: objectArrayUniq_eq distinct_first_occurrences)
  then have "distinct (objectArrayUniq xs)"
    by (simp add: distinct_map)
  moreover have "set (objectArrayUniq xs) = set xs"
    by (simp only: objectArrayUniq_eq first_occurrences_inj [OF inj_JSON_stringify])
  moreover have "subseq (objectArrayUniq xs) xs"
    by (simp only: objectArrayUniq_eq subseq_first_occurrences)
  ultimately show ?thesis
    by (simp add: objectArrayUniq_Cons)
qed

section \<open>The loops of the extraction engine\<close>

lemma attributes_loop_eq:
  "attributes_loop tag element sel as events =
     events @ map (mk_edata tag element sel)
                (filter (\<lambda>a. eventIsValidForTagName tag (drop 2 (nodeName a))) as)"
  by (induction as arbitrary: events) (simp_all add: Let_def mk_edata_def)

lemma extractEventsFromAttributes_eq:
  "extractEventsFromAttributes getSelector tag element =
     map (mk_edata tag element (getSelector (Node (Elem element))))
       (filter (\<lambda>a. eventIsValidForTagName tag (drop 2 (nodeName a))) (attributes element))"
  by (simp add: extractEventsFromAttributes_def attributes_loop_eq)

lemma getAncestors_loop_None:
  "getAncestors_loop matches None n parents = parents @ self_and_ancestors n"
  by (induction matches "None :: string option" n parents rule: getAncestors_loop.induct) simp_all

lemma getAncestors_None: "getAncestors matches n None = self_and_ancestors n"
  by (simp add: getAncestors_def getAncestors_loop_None)

lemma rescope_loop_eq:
  "rescope_loop getSelector tag element evs events =
     events @ map (rescope getSelector tag element) evs"
  by (induction evs arbitrary: events) (simp_all add: rescope_def)

lemma ancestors_loop_eq:
  "ancestors_loop getSelector tag element ancestors events =
     events @ concat (map (\<lambda>a. map (rescope getSelector tag element)
                               (extractEventsFromAttributes getSelector (toLowerCase (tagName a)) a))
                        ancestors)"
  by (induction ancestors arbitrary: events) (simp_all add: Let_def rescope_loop_eq)

lemma extractInheritedEvents_eq:
  "extractInheritedEvents getSelector matches tag element =
     (if tag \<in> set elements_allowed_to_inherit_events_from_ancestors
      then concat (map (\<lambda>a. map (rescope getSelector tag element)
                               (extractEventsFromAttributes getSelector (toLowerCase (tagName a)) a))
                     (self_and_ancestors (Elem element)))
      else [])"
  by (simp add: extractInheritedEvents_def ancestors_loop_eq getAncestors_None)

lemma filterByEventName_Nil: "filterByEventName [] event_filter = []"
  by (simp add: filterByEventName_def)

lemma elements_loop_eq:
  "elements_loop getSelector matches all_elements event_filter events =
     events @ concat (map (\<lambda>e. filterByEventName (element_events getSelector matches e) event_filter)
                        (filter (\<lambda>e. \<not> elementIsHidden (Elem e)) all_elements))"
  by (induction all_elements arbitrary: events)
     (simp_all add: Let_def element_events_def filterByEventName_Nil)

lemma filter_concat_map: "filter P (concat (map f xs)) = concat (map (\<lambda>x. filter P (f x)) xs)"
  by (induction xs) simp_all

text \<open>
  Order and hidden elements in the query: the attribute events of an element come first
  among its events, the result for a document is the concatenation of the results for its
  parts, and a hidden element can be left out of the document without changing the result.
\<close>

lemma element_events_attributes_first:
  "prefix (objectArrayUniq (extractEventsFromAttributes getSelector (toLowerCase (tagName e)) e))
     (element_events getSelector matches e)"
  by (simp add: element_events_def objectArrayUniq_eq first_occurrences_append)

lemma getElementsWithEventHandlers_append:
  "getElementsWithEventHandlers getSelector matches (xs @ ys) event_filter =
     getElementsWithEventHandlers getSelector matches xs event_filter @
     getElementsWithEventHandlers getSelector matches ys event_filter"
  by (simp add: getElementsWithEventHandlers_def elements_loop_eq)

lemma getElementsWithEventHandlers_hidden:
  "elementIsHidden (Elem e) \<Longrightarrow>
   getElementsWithEventHandlers getSelector matches (xs @ e # ys) event_filter =
     getElementsWithEventHandlers getSelector matches (xs @ ys) event_filter"
  by (simp add: getElementsWithEventHandlers_def elements_loop_eq)

text \<open>Lower-casing reaches the capital letters beyond ASCII: \<^verbatim>\<open>X-\<close> followed by U+00C9.\<close>

lemma toLowerCase_beyond_ascii:
  "toLowerCase [CHR ''X'', CHR ''-'', CHR 0xC9] = [CHR ''x'', CHR ''-'', CHR 0xE9]"
  by (simp add: toLowerCase_def lower_char_def upper_case_letters_def lower_case_letters_def)

lemmas example_defs =
  example_getSelector_def example_matches_def example_html_def example_body_def
  example_button_def

lemmas matrix_defs =
  eventIsValidForTagName_def universally_valid_events_def valid_events_per_element_def
  elements_allowed_to_inherit_events_from_ancestors_def

lemmas initialize_defs =
  initialize_def override_setInterval_def override_setTimeout_def override_addEventListener_def

section \<open>Attribute extraction\<close>

text \<open>
  C5. Attribute extraction strips the first two characters of every attribute name and
  emits a descriptor exactly when the remainder is valid for the tag, whatever the two
  stripped characters were. On the element \<^verbatim>\<open><p myclick="1">\<close>, whose only attribute is not
  an event-handler attribute, it therefore returns one descriptor, for the event type
  \<^verbatim>\<open>click\<close> with handler source \<^verbatim>\<open>1\<close>, where the claim says it returns none.
\<close>

theorem extractEventsFromAttributes_non_handler:
  "extractEventsFromAttributes example_getSelector ''p'' example_custom
   = [\<lparr>tag_name = ''p'', node_type = 1, selector = ''#p'', event_type = ''click'',
        handler = ''1''\<rparr>]"
  by (simp add: extractEventsFromAttributes_eq mk_edata_def nodeType_def toLowerCase_def
        lower_char_def upper_case_letters_def lower_case_letters_def example_custom_def example_defs matrix_defs)

section \<open>Inherited events\<close>

text \<open>
  C4. \<^verbatim>\<open>getAncestors\<close> starts at the element itself, so \<^verbatim>\<open>extractInheritedEvents\<close> runs
  attribute extraction on the element as well as on its ancestors. For the button
  \<^verbatim>\<open><button onclick="x()">\<close>, whose ancestors \<^verbatim>\<open>body\<close> and \<^verbatim>\<open>html\<close> have no attributes, it
  returns the button's own click handler, where the claim (ancestors strictly between the
  element and the document root) gives the empty list.
\<close>

theorem extractInheritedEvents_includes_own:
  "extractInheritedEvents example_getSelector example_matches ''button'' example_button
   = [\<lparr>tag_name = ''button'', node_type = 1, selector = ''#button'', event_type = ''click'',
        handler = ''x()''\<rparr>] \<and>
   getAncestors example_matches (Elem example_button) None
   = [example_button, example_body, example_html]"
  by (simp add: extractInheritedEvents_eq getAncestors_None extractEventsFromAttributes_eq
        mk_edata_def rescope_def nodeType_def toLowerCase_def lower_char_def upper_case_letters_def lower_case_letters_def example_defs
        matrix_defs)

section \<open>The document-wide query\<close>

text \<open>
  C9. With an empty filter the query returns exactly the events of the query without any
  filtering step; with a non-empty filter it returns exactly those of them whose event
  type is in the filter, in the same order: the elements in document order, hidden elements
  skipped, and per element the attribute events before the inherited ones.
\<close>

theorem getElementsWithEventHandlers_filter:
  "getElementsWithEventHandlers getSelector matches all_elements event_filter =
     (if event_filter = [] then unfiltered_events getSelector matches all_elements
      else filter (\<lambda>ev. event_type ev \<in> set event_filter)
             (unfiltered_events getSelector matches all_elements))"
  by (simp add: getElementsWithEventHandlers_def elements_loop_eq unfiltered_events_def
        filter_concat_map filterByEventName_def)

theorem getElementsWithEventHandlers_filter_witness:
  "getElementsWithEventHandlers example_getSelector example_matches
     [example_html, example_body, example_a, example_span, example_button, example_hidden] []
   = [\<lparr>tag_name = ''a'', node_type = 1, selector = ''#a'', event_type = ''click'',
        handler = ''go()''\<rparr>,
      \<lparr>tag_name = ''a'', node_type = 1, selector = ''#a'', event_type = ''dblclick'',
        handler = ''twice()''\<rparr>,
      \<lparr>tag_name = ''span'', node_type = 1, selector = ''#span'', event_type = ''click'',
        handler = ''go()''\<rparr>,
      \<lparr>tag_name = ''span'', node_type = 1, selector = ''#span'', event_type = ''dblclick'',
        handler = ''twice()''\<rparr>,
      \<lparr>tag_name = ''button'', node_type = 1, selector = ''#button'', event_type = ''click'',
        handler = ''x()''\<rparr>] \<and>
   getElementsWithEventHandlers example_getSelector example_matches
     [example_html, example_body, example_a, example_span, example_button, example_hidden]
     [''click'']
   = [\<lparr>tag_name = ''a'', node_type = 1, selector = ''#a'', event_type = ''click'',
        handler = ''go()''\<rparr>,
      \<lparr>tag_name = ''span'', node_type = 1, selector = ''#span'', event_type = ''click'',
        handler = ''go()''\<rparr>,
      \<lparr>tag_name = ''button'', node_type = 1, selector = ''#button'', event_type = ''click'',
        handler = ''x()''\<rparr>]"
  by (simp add: getElementsWithEventHandlers_filter unfiltered_events_def element_events_def
        extractEventsFromAttributes_eq extractInheritedEvents_eq mk_edata_def rescope_def
        objectArrayUniq_Nil objectArrayUniq_Cons elementIsHidden_def nodeType_def
        toLowerCase_def lower_char_def upper_case_letters_def lower_case_letters_def example_a_def example_span_def example_hidden_def
        example_defs matrix_defs)

section \<open>Initialization\<close>

text \<open>
  C10. \<^verbatim>\<open>initialize\<close> is idempotent: on a page that is not yet initialized it sets the flag
  and wraps each of the five entry points once around the function found there; on an
  initialized page it changes nothing, so any number of calls has the effect of one.
\<close>

theorem initialize_idempotent:
  "(initialize ^^ Suc n) p = initialize p \<and>
   (initialized p \<longrightarrow> initialize p = p) \<and>
   (\<not> initialized p \<longrightarrow>
      initialize p =
        p\<lparr>initialized := True,
          window_addEventListener := Window_addEventListener_wrapper (window_addEventListener p),
          document_addEventListener :=
            Document_addEventListener_wrapper (document_addEventListener p),
          node_addEventListener := Node_addEventListener_wrapper (node_addEventListener p),
          window_setTimeout := SetTimeout_wrapper (window_setTimeout p),
          window_setInterval := SetInterval_wrapper (window_setInterval p)\<rparr>)"
proof -
  have init: "initialized (initialize q)" for q
    by (simp add: initialize_def override_setInterval_def override_setTimeout_def
          override_addEventListener_def)
  have stable: "initialize q = q" if "initialized q" for q
    using that by (simp add: initialize_def)
  have "(initialize ^^ Suc n) p = initialize p"
  proof (induction n)
    case 0
    show ?case by simp
  next
    case (Suc n)
    have "(initialize ^^ Suc (Suc n)) p = initialize ((initialize ^^ Suc n) p)"
      by simp
    also have "\<dots> = initialize (initialize p)"
      by (simp only: Suc)
    also have "\<dots> = initialize p"
      by (rule stable) (rule init)
    finally show ?case .
  qed
  moreover have "initialized p \<longrightarrow> initialize p = p"
    by (simp add: stable)
  moreover have "\<not> initialized p \<longrightarrow>
      initialize p =
        p\<lparr>initialized := True,
          window_addEventListener := Window_addEventListener_wrapper (window_addEventListener p),
          document_addEventListener :=
            Document_addEventListener_wrapper (document_addEventListener p),
          node_addEventListener := Node_addEventListener_wrapper (node_addEventListener p),
          window_setTimeout := SetTimeout_wrapper (window_setTimeout p),
          window_setInterval := SetInterval_wrapper (window_setInterval p)\<rparr>"
    by (simp add: initialize_def override_setInterval_def override_setTimeout_def
          override_addEventListener_def)
  ultimately show ?thesis
    by simp
qed

theorem initialize_idempotent_witness:
  "\<not> initialized fresh_page \<and> initialized (initialize fresh_page) \<and>
   (initialize ^^ 3) fresh_page = initialize fresh_page \<and>
   initialize (initialize fresh_page) = initialize fresh_page \<and>
   window_setTimeout (initialize fresh_page) = SetTimeout_wrapper Native_setTimeout \<and>
   window_setInterval ((initialize ^^ 3) fresh_page) = SetInterval_wrapper Native_setInterval \<and>
   document_addEventListener ((initialize ^^ 3) fresh_page)
     = Document_addEventListener_wrapper Native_addEventListener"
  using initialize_idempotent [of 2 fresh_page] initialize_idempotent [of 0 "initialize fresh_page"]
  by (simp add: fresh_page_def numeral_3_eq_3)

section \<open>Dispatch\<close>

text \<open>
  The locator of the claim C8 is any string. On the empty string, which is not a selector,
  the DOM query raises a SyntaxError: \<^verbatim>\<open>dispatchCustomEvent\<close> then neither returns false nor
  returns true, the error reaches the caller, and nothing is dispatched.
\<close>

theorem dispatchCustomEvent_not_a_selector:
  "example_querySelector '''' = Inl SyntaxError \<and>
   dispatchCustomEvent example_querySelector '''' ''click'' fresh_page
     = (Inl SyntaxError, fresh_page) \<and>
   fst (dispatchCustomEvent example_querySelector '''' ''click'' fresh_page) \<noteq> Inr False \<and>
   fst (dispatchCustomEvent example_querySelector '''' ''click'' fresh_page) \<noteq> Inr True"
  by (simp add: dispatchCustomEvent_def example_querySelector_def)

text \<open>
  C8, amended. When the DOM query for the locator raises an error (the locator is not a
  selector), \<^verbatim>\<open>dispatchCustomEvent\<close> raises that error and leaves the page as it was. When
  the query returns \<^verbatim>\<open>null\<close> or a hidden element, it returns false and leaves the page as
  it was; when the query returns an element that is not hidden, it dispatches on that
  element one event of the given type that bubbles, is cancelable, has its four
  modifier-key flags false and its view set to the window, and returns true.
\<close>

theorem dispatchCustomEvent_result:
  "(querySelector sel = Inl err \<longrightarrow>
      dispatchCustomEvent querySelector sel etype p = (Inl err, p)) \<and>
   (querySelector sel = Inr element \<longrightarrow>
      dispatchCustomEvent querySelector sel etype p =
        (if element = Null \<or> elementIsHidden element then (Inr False, p)
         else (Inr True,
               p\<lparr>dispatched := dispatched p @
                    [(element, \<lparr>ev_type = etype, bubbles = True, cancelable = True,
                                altKey = False, shiftKey = False, ctrlKey = False,
                                metaKey = False, view = Window\<rparr>)]\<rparr>)))"
  by (simp add: dispatchCustomEvent_def)

theorem dispatchCustomEvent_result_witness:
  "dispatchCustomEvent example_querySelector ''#button'' ''click'' fresh_page =
     (Inr True,
      fresh_page\<lparr>dispatched :=
        [(Elem example_button,
          \<lparr>ev_type = ''click'', bubbles = True, cancelable = True, altKey = False,
            shiftKey = False, ctrlKey = False, metaKey = False, view = Window\<rparr>)]\<rparr>) \<and>
   dispatchCustomEvent example_querySelector ''#div'' ''click'' fresh_page = (Inr False, fresh_page) \<and>
   dispatchCustomEvent example_querySelector ''#gone'' ''click'' fresh_page = (Inr False, fresh_page) \<and>
   dispatchCustomEvent example_querySelector ''*['' ''click'' fresh_page
     = (Inl SyntaxError, fresh_page)"
  using dispatchCustomEvent_result [of example_querySelector "''#button''" SyntaxError "''click''" fresh_page "Elem example_button"]
    dispatchCustomEvent_result [of example_querySelector "''#div''" SyntaxError "''click''" fresh_page "Elem example_hidden"]
    dispatchCustomEvent_result [of example_querySelector "''#gone''" SyntaxError "''click''" fresh_page Null]
    dispatchCustomEvent_result [of example_querySelector "''*[''" SyntaxError "''click''" fresh_page Null]
  by (simp add: example_querySelector_def elementIsHidden_def example_button_def example_hidden_def
        fresh_page_def)

section \<open>The wrappers\<close>

text \<open>
  On an element the listener wrapper of \<^verbatim>\<open>Node.prototype\<close> appends one record with the
  call's own type and forwards the call, \<^verbatim>\<open>this\<close> and arguments unchanged, to the function
  it wraps.
\<close>

lemma Node_wrapper_on_element:
  "call getSelector (Node_addEventListener_wrapper Native_addEventListener) (Node (Elem e)) args p =
     (Inr Undefined,
      p\<lparr>event_listeners := event_listeners p @
           [\<lparr>el_tag_name = toLowerCase (tagName e), el_node_type = Num 1,
             el_selector = getSelector (Node (Elem e)), el_event_type = arg 0 args,
             el_use_capture = arg 2 args\<rparr>],
        native_calls := native_calls p @ [(Native_addEventListener, Node (Elem e), args)]\<rparr>)"
  by (simp add: storeEventListenerData_def tagName_of_def nodeType_of_def nodeType_def)

text \<open>
  C1. The wrapper installed on the document passes the global \<^verbatim>\<open>event\<close> to
  \<^verbatim>\<open>storeEventListenerData\<close>, not its parameter \<^verbatim>\<open>type\<close>. For
  \<^verbatim>\<open>document.addEventListener("click", f, false)\<close> on an initialized page the call raises a
  TypeError (the document has no \<^verbatim>\<open>tagName\<close>) and no record is appended. On a page whose
  script has given the document a \<^verbatim>\<open>tagName\<close>, and with the call made while an event
  (object 7) is being handled, the record is appended with that event object as its event
  type, where the claim says \<^verbatim>\<open>click\<close>.
\<close>

theorem document_addEventListener_wrong_type:
  "call example_getSelector (document_addEventListener (initialize fresh_page)) (Node Document)
     [Str ''click'', Fun 0, Bool False] (initialize fresh_page)
   = (Inl TypeError, initialize fresh_page) \<and>
   event_listeners
     (snd (call example_getSelector
             (document_addEventListener
                (initialize (fresh_page\<lparr>document_tagName := Some ''DOCUMENT'',
                                        window_event := Obj 7\<rparr>)))
             (Node Document) [Str ''click'', Fun 0, Bool False]
             (initialize (fresh_page\<lparr>document_tagName := Some ''DOCUMENT'',
                                     window_event := Obj 7\<rparr>))))
   = [\<lparr>el_tag_name = ''document'', el_node_type = Num 9, el_selector = '''',
        el_event_type = Obj 7, el_use_capture = Bool False\<rparr>]"
  by (simp add: initialize_defs fresh_page_def storeEventListenerData_def tagName_of_def
        nodeType_of_def arg_def example_getSelector_def toLowerCase_def lower_char_def upper_case_letters_def lower_case_letters_def)

text \<open>
  C2. The timer wrappers record the call and forward it, but have no \<^verbatim>\<open>return\<close>: for
  \<^verbatim>\<open>window.setTimeout(f, 100)\<close> on an initialized page the wrapper appends the record,
  the native function is called with the same \<^verbatim>\<open>this\<close> and arguments and returns the timer
  identifier 1, and the wrapper returns undefined, where the claim says the original's
  result is returned unmodified.
\<close>

theorem setTimeout_wrapper_returns_undefined:
  "call example_getSelector (window_setTimeout (initialize fresh_page)) Window [Fun 0, Num 100]
     (initialize fresh_page)
   = (Inr Undefined,
      (initialize fresh_page)
        \<lparr>set_timeouts := [\<lparr>function_ = Fun 0, timeout = Num 100\<rparr>],
         native_calls := [(Native_setTimeout, Window, [Fun 0, Num 100])],
         next_timer_id := 2\<rparr>) \<and>
   fst (call example_getSelector Native_setTimeout Window [Fun 0, Num 100]
          ((initialize fresh_page)\<lparr>set_timeouts := [\<lparr>function_ = Fun 0, timeout = Num 100\<rparr>]\<rparr>))
   = Inr (Num 1)"
  by (simp add: initialize_defs fresh_page_def arg_def)

text \<open>
  C3. For \<^verbatim>\<open>window.addEventListener("load", f, false)\<close> on an initialized page the recording
  raises a TypeError, since the window has no \<^verbatim>\<open>tagName\<close>: no record is appended and the
  native function is never called, where the claim says that one record is appended, that
  the recording raises nothing and that the page's behaviour is unaffected.
\<close>

theorem window_addEventListener_raises:
  "call example_getSelector (window_addEventListener (initialize fresh_page)) Window
     [Str ''load'', Fun 0, Bool False] (initialize fresh_page)
   = (Inl TypeError, initialize fresh_page)"
  by (simp add: initialize_defs fresh_page_def storeEventListenerData_def tagName_of_def
        arg_def)

end
